theory Spec2Isabelle
  imports Complex_Main "HOL-Library.Sublist"
begin

section \<open>Python values\<close>

text \<open>
  The sensor module of the ENTSO-e integration (\<open>custom_components/entsoe/sensor.py\<close>)
  reads a dictionary of already computed prices from its coordinator, extracts one value
  per metric and republishes it every hour. The embedding below follows the module
  top-down: the values a snapshot can hold, the arithmetic of the one metric that
  computes, the clock, the catalogue of metrics, the entity and its update.
\<close>

subsection \<open>Exceptions\<close>

text \<open>
  The exceptions the module can meet. \<open>KeyError\<close> carries the missing key;
  \<open>OtherError\<close> stands for any further subclass of \<open>Exception\<close> that the coordinator's
  accessor may raise.
\<close>

datatype pyerror =
    KeyError string
  | TypeError
  | ZeroDivisionError
  | OverflowError
  | OtherError string

subsection \<open>Floats\<close>

text \<open>
  A Python float is an IEEE 754 binary64 number: a finite value (kept as the rational it
  denotes), an infinity or a NaN. The sign of a zero and the payload of a NaN are not
  kept; neither changes whether an operation raises.
\<close>

datatype pyfloat = Finite rat | PosInf | NegInf | NaN

text \<open>\<open>nbits n\<close> is the number of binary digits of a positive \<open>n\<close>.\<close>

function nbits :: "int \<Rightarrow> nat" where
  "nbits n = (if n \<le> 0 then 0 else Suc (nbits (n div 2)))"
  by pat_completeness auto
termination
  by (relation "measure nat") auto

declare nbits.simps [simp del]

definition pow2 :: "int \<Rightarrow> rat" where
  "pow2 e = (if 0 \<le> e then 2 ^ nat e else 1 / 2 ^ nat (- e))"

text \<open>\<open>floor_log2 x\<close> is the exponent \<open>e\<close> with \<open>2^e \<le> x < 2^(e+1)\<close>, for \<open>x > 0\<close>.\<close>

definition floor_log2 :: "rat \<Rightarrow> int" where
  "floor_log2 x =
     (if 1 \<le> x then int (nbits \<lfloor>x\<rfloor>) - 1
      else - int (nbits (\<lceil>1 / x\<rceil> - 1)))"

definition round_half_even :: "rat \<Rightarrow> int" where
  "round_half_even x =
     (let f = \<lfloor>x\<rfloor>; d = x - of_int f
      in if d < 1 / 2 then f
         else if 1 / 2 < d then f + 1
         else if even f then f else f + 1)"

text \<open>
  Rounding of an exact result to binary64, to nearest with ties to even: 53 bits of
  significand, exponents from \<open>-1022\<close> (below it the spacing stays \<open>2^-1074\<close>), and an
  infinity from \<open>2^1024\<close> on.
\<close>

definition round_b64 :: "rat \<Rightarrow> pyfloat" where
  "round_b64 x =
     (if x = 0 then Finite 0
      else
        let a = \<bar>x\<bar>;
            e = max (floor_log2 a) (- 1022);
            q = pow2 (e - 52);
            r = of_int (round_half_even (a / q)) * q
        in if pow2 1024 \<le> r then (if 0 < x then PosInf else NegInf)
           else Finite (if 0 < x then r else - r))"

text \<open>Conversion of an int to a float raises when the int is too large.\<close>

definition int_to_float :: "int \<Rightarrow> pyerror + pyfloat" where
  "int_to_float i =
     (case round_b64 (of_int i) of
        Finite r \<Rightarrow> Inr (Finite r)
      | _ \<Rightarrow> Inl OverflowError)"

definition is_zero :: "pyfloat \<Rightarrow> bool" where
  "is_zero f = (f = Finite 0)"

definition negative :: "pyfloat \<Rightarrow> bool" where
  "negative f = (case f of Finite r \<Rightarrow> r < 0 | NegInf \<Rightarrow> True | _ \<Rightarrow> False)"

definition infinity :: "bool \<Rightarrow> pyfloat" where
  "infinity neg = (if neg then NegInf else PosInf)"

text \<open>
  Division of two floats: Python raises on a zero divisor before anything else, whatever
  the dividend (also an infinity or a NaN); otherwise the quotient is the IEEE one.
\<close>

definition float_truediv :: "pyfloat \<Rightarrow> pyfloat \<Rightarrow> pyerror + pyfloat" where
  "float_truediv a b =
     (if is_zero b then Inl ZeroDivisionError
      else Inr
        (case (a, b) of
           (NaN, _) \<Rightarrow> NaN
         | (_, NaN) \<Rightarrow> NaN
         | (Finite x, Finite y) \<Rightarrow> round_b64 (x / y)
         | (Finite x, _) \<Rightarrow> Finite 0
         | (_, Finite y) \<Rightarrow> infinity (negative a \<noteq> negative b)
         | (_, _) \<Rightarrow> NaN))"

definition float_mul :: "pyfloat \<Rightarrow> pyfloat \<Rightarrow> pyfloat" where
  "float_mul a b =
     (case (a, b) of
        (NaN, _) \<Rightarrow> NaN
      | (_, NaN) \<Rightarrow> NaN
      | (Finite x, Finite y) \<Rightarrow> round_b64 (x * y)
      | (_, _) \<Rightarrow>
          if is_zero a \<or> is_zero b then NaN
          else infinity (negative a \<noteq> negative b))"

text \<open>
  \<open>round(x, 1)\<close> on a float: an infinity or a NaN comes back as it is; a finite value is
  rounded to one decimal, ties to even, and the decimal is read back as a float.
\<close>

definition float_round1 :: "pyfloat \<Rightarrow> pyfloat" where
  "float_round1 a =
     (case a of
        Finite x \<Rightarrow> round_b64 (of_int (round_half_even (x * 10)) / 10)
      | _ \<Rightarrow> a)"

subsection \<open>Date-times\<close>

text \<open>
  A \<open>datetime\<close> in UTC. The date is kept as its proleptic Gregorian ordinal
  (\<open>date.toordinal()\<close>, day 1 is 0001-01-01), which is how \<open>datetime.__add__\<close> itself
  computes; the largest date, 9999-12-31, has ordinal \<open>3652059\<close>.
\<close>

record pydatetime =
  ordinal :: nat
  hour :: nat
  minute :: nat
  second :: nat
  microsecond :: nat

record timedelta =
  days :: int
  seconds :: nat
  microseconds :: nat

definition MAXORDINAL :: int where
  "MAXORDINAL = 3652059"

definition valid_datetime :: "pydatetime \<Rightarrow> bool" where
  "valid_datetime d =
     (0 < ordinal d \<and> int (ordinal d) \<le> MAXORDINAL \<and> hour d < 24 \<and> minute d < 60 \<and>
      second d < 60 \<and> microsecond d < 1000000)"

text \<open>\<open>timedelta(hours=h)\<close>, normalised as the constructor does.\<close>

definition timedelta_hours :: "nat \<Rightarrow> timedelta" where
  "timedelta_hours h =
     \<lparr>days = int (h div 24), seconds = (h mod 24) * 3600, microseconds = 0\<rparr>"

text \<open>\<open>d.replace(minute=m, second=s)\<close>: every other field, the microsecond too, is kept.\<close>

definition replace_minute_second :: "pydatetime \<Rightarrow> nat \<Rightarrow> nat \<Rightarrow> pydatetime" where
  "replace_minute_second d m s = d\<lparr>minute := m, second := s\<rparr>"

text \<open>
  \<open>d + td\<close>: the fields are added with carry, and a date beyond the largest one raises
  \<open>OverflowError\<close>.
\<close>

definition datetime_add :: "pydatetime \<Rightarrow> timedelta \<Rightarrow> pyerror + pydatetime" where
  "datetime_add d td =
     (let us = microsecond d + microseconds td;
          s = hour d * 3600 + minute d * 60 + second d + seconds td + us div 1000000;
          dy = int (ordinal d) + days td + int (s div 86400)
      in if 0 < dy \<and> dy \<le> MAXORDINAL
         then Inr \<lparr>ordinal = nat dy, hour = (s mod 86400) div 3600,
                   minute = (s mod 3600) div 60, second = s mod 60,
                   microsecond = us mod 1000000\<rparr>
         else Inl OverflowError)"

text \<open>
  The time of the next wake-up (lines 186 to 190):
  \<open>utcnow().replace(minute=0, second=0) + timedelta(hours=1)\<close>.
\<close>

definition next_update_time :: "pydatetime \<Rightarrow> pyerror + pydatetime" where
  "next_update_time now = datetime_add (replace_minute_second now 0 0) (timedelta_hours 1)"

text \<open>
  What the specification calls \<open>truncate_to_hour\<close>: the instant with minute, second and
  every smaller unit cleared. It is written from the specification's words, to be
  compared with \<open>next_update_time\<close>.
\<close>

definition spec_truncate_to_hour :: "pydatetime \<Rightarrow> pydatetime" where
  "spec_truncate_to_hour d = d\<lparr>minute := 0, second := 0, microsecond := 0\<rparr>"

definition spec_next_whole_hour :: "pydatetime \<Rightarrow> pyerror + pydatetime" where
  "spec_next_whole_hour now = datetime_add (spec_truncate_to_hour now) (timedelta_hours 1)"

subsection \<open>Values of a snapshot\<close>

text \<open>
  The values a processed-data snapshot holds: \<open>None\<close>, ints, floats, strings, pandas
  \<open>Timestamp\<close>s (a date-time and its nanoseconds), \<open>datetime\<close>s, lists and dictionaries
  (the price curves). Booleans and numpy scalars are not modelled.
\<close>

datatype pyval =
    PNone
  | PInt int
  | PFloat pyfloat
  | PStr string
  | PTimestamp pydatetime nat
  | PDatetime pydatetime
  | PList "pyval list"
  | PDict "(string \<times> pyval) list"

type_synonym snapshot = "string \<Rightarrow> pyval option"

text \<open>\<open>data[k]\<close> on a dictionary.\<close>

definition subscript :: "snapshot \<Rightarrow> string \<Rightarrow> pyerror + pyval" where
  "subscript d k = (case d k of None \<Rightarrow> Inl (KeyError k) | Some v \<Rightarrow> Inr v)"

text \<open>
  \<open>a / b\<close>. Two ints divide exactly and the quotient is rounded once (a zero divisor is
  checked first, a quotient too large for a float raises); when one operand is a float the
  int is converted first, which can raise before the divisor is looked at; anything else
  is a \<open>TypeError\<close>. The result, when there is one, is a float.
\<close>

definition py_truediv :: "pyval \<Rightarrow> pyval \<Rightarrow> pyerror + pyfloat" where
  "py_truediv a b =
     (case (a, b) of
        (PInt x, PInt y) \<Rightarrow>
          if y = 0 then Inl ZeroDivisionError
          else (case round_b64 (of_int x / of_int y) of
                  Finite r \<Rightarrow> Inr (Finite r)
                | _ \<Rightarrow> Inl OverflowError)
      | (PInt x, PFloat g) \<Rightarrow>
          (case int_to_float x of Inl e \<Rightarrow> Inl e | Inr f \<Rightarrow> float_truediv f g)
      | (PFloat f, PInt y) \<Rightarrow>
          (case int_to_float y of Inl e \<Rightarrow> Inl e | Inr g \<Rightarrow> float_truediv f g)
      | (PFloat f, PFloat g) \<Rightarrow> float_truediv f g
      | (_, _) \<Rightarrow> Inl TypeError)"

text \<open>\<open>f * n\<close> for a float \<open>f\<close> and an int \<open>n\<close>: the int is converted, then multiplied.\<close>

definition float_mul_int :: "pyfloat \<Rightarrow> int \<Rightarrow> pyerror + pyfloat" where
  "float_mul_int f n =
     (case int_to_float n of Inl e \<Rightarrow> Inl e | Inr g \<Rightarrow> Inr (float_mul f g))"

text \<open>\<open>Timestamp.to_pydatetime()\<close> drops the nanoseconds.\<close>

definition to_pydatetime :: "pydatetime \<Rightarrow> nat \<Rightarrow> pydatetime" where
  "to_pydatetime d ns = d"

section \<open>The catalogue of metrics\<close>

datatype SensorDeviceClass = TIMESTAMP

datatype SensorStateClass = MEASUREMENT

text \<open>The two constants of the host platform that the units are built from.\<close>

definition KILO_WATT_HOUR :: string where
  "KILO_WATT_HOUR = ''kWh''"

definition PERCENTAGE :: string where
  "PERCENTAGE = ''%''"

record EntsoeEntityDescription =
  key :: string
  name :: string
  native_unit_of_measurement :: "string option"
  device_class :: "SensorDeviceClass option"
  state_class :: "SensorStateClass option"
  icon :: "string option"
  value_fn :: "snapshot \<Rightarrow> pyerror + pyval"

text \<open>
  The extraction of \<open>percentage_of_max\<close> (lines 80 to 82):
  \<open>round(data["current_price"] / data["max_price"] * 100, 1)\<close>, evaluated left to right.
\<close>

definition percentage_of_max :: "snapshot \<Rightarrow> pyerror + pyval" where
  "percentage_of_max d =
     (case subscript d ''current_price'' of
        Inl e \<Rightarrow> Inl e
      | Inr cp \<Rightarrow>
          (case subscript d ''max_price'' of
             Inl e \<Rightarrow> Inl e
           | Inr mp \<Rightarrow>
               (case py_truediv cp mp of
                  Inl e \<Rightarrow> Inl e
                | Inr q \<Rightarrow>
                    (case float_mul_int q 100 of
                       Inl e \<Rightarrow> Inl e
                     | Inr p \<Rightarrow> Inr (PFloat (float_round1 p))))))"

definition sensor_descriptions :: "string \<Rightarrow> EntsoeEntityDescription list" where
  "sensor_descriptions currency =
     [\<lparr>key = ''current_price'',
       name = ''Current electricity market price'',
       native_unit_of_measurement = Some (currency @ ''/'' @ KILO_WATT_HOUR),
       device_class = None, state_class = Some MEASUREMENT, icon = None,
       value_fn = (\<lambda>d. subscript d ''current_price'')\<rparr>,
      \<lparr>key = ''next_hour_price'',
       name = ''Next hour electricity market price'',
       native_unit_of_measurement = Some (currency @ ''/'' @ KILO_WATT_HOUR),
       device_class = None, state_class = Some MEASUREMENT, icon = None,
       value_fn = (\<lambda>d. subscript d ''next_hour_price'')\<rparr>,
      \<lparr>key = ''min_price'',
       name = ''Lowest energy price today'',
       native_unit_of_measurement = Some (currency @ ''/'' @ KILO_WATT_HOUR),
       device_class = None, state_class = Some MEASUREMENT, icon = None,
       value_fn = (\<lambda>d. subscript d ''min_price'')\<rparr>,
      \<lparr>key = ''max_price'',
       name = ''Highest energy price today'',
       native_unit_of_measurement = Some (currency @ ''/'' @ KILO_WATT_HOUR),
       device_class = None, state_class = Some MEASUREMENT, icon = None,
       value_fn = (\<lambda>d. subscript d ''max_price'')\<rparr>,
      \<lparr>key = ''avg_price'',
       name = ''Average electricity price today'',
       native_unit_of_measurement = Some (currency @ ''/'' @ KILO_WATT_HOUR),
       device_class = None, state_class = Some MEASUREMENT, icon = None,
       value_fn = (\<lambda>d. subscript d ''avg_price'')\<rparr>,
      \<lparr>key = ''percentage_of_max'',
       name = ''Current percentage of highest electricity price today'',
       native_unit_of_measurement = Some PERCENTAGE,
       device_class = None, state_class = Some MEASUREMENT, icon = Some ''mdi:percent'',
       value_fn = percentage_of_max\<rparr>,
      \<lparr>key = ''highest_price_time_today'',
       name = ''Time of highest price today'',
       native_unit_of_measurement = None,
       device_class = Some TIMESTAMP, state_class = None, icon = None,
       value_fn = (\<lambda>d. subscript d ''time_max'')\<rparr>,
      \<lparr>key = ''lowest_price_time_today'',
       name = ''Time of lowest price today'',
       native_unit_of_measurement = None,
       device_class = Some TIMESTAMP, state_class = None, icon = None,
       value_fn = (\<lambda>d. subscript d ''time_min'')\<rparr>]"

section \<open>The sensor entity\<close>

subsection \<open>The coordinator and the host's timer service\<close>

text \<open>
  The coordinator is shared and read only. At the moment of an update the entity sees
  two things of it: the attribute \<open>data\<close> (\<open>None\<close> until the first fetch) and the outcome
  of calling \<open>processed_data()\<close>, a snapshot or an exception.
\<close>

record coordinator =
  data :: pyval
  processed_data :: "pyerror + snapshot"

text \<open>
  The host's one-shot timers. \<open>async_track_point_in_utc_time(hass, job, t)\<close> registers a
  wake-up of \<open>job\<close> at \<open>t\<close> and returns a callable that cancels it; the callable is
  identified by a handle, fresh at every registration. A pending wake-up is a triple of
  handle, job and time.
\<close>

record scheduler =
  pending :: "(nat \<times> nat \<times> pydatetime) list"
  next_handle :: nat

definition async_track_point_in_utc_time ::
  "scheduler \<Rightarrow> nat \<Rightarrow> pydatetime \<Rightarrow> nat \<times> scheduler" where
  "async_track_point_in_utc_time sch job t =
     (next_handle sch,
      sch\<lparr>pending := pending sch @ [(next_handle sch, job, t)],
          next_handle := Suc (next_handle sch)\<rparr>)"

text \<open>Calling the cancel callable of handle \<open>h\<close>; a wake-up no longer pending is left alone.\<close>

definition unsub :: "nat \<Rightarrow> scheduler \<Rightarrow> scheduler" where
  "unsub h sch = sch\<lparr>pending := filter (\<lambda>w. fst w \<noteq> h) (pending sch)\<rparr>"

subsection \<open>Construction\<close>

record EntsoeSensor =
  description :: EntsoeEntityDescription
  entity_description :: EntsoeEntityDescription
  last_update_success :: bool
  entity_id :: string
  attr_unique_id :: string
  attr_name :: string
  attr_native_value :: pyval
  attr_extra_state_attributes :: "(string \<times> pyval) list option"
  update_job :: nat
  unsub_update :: "nat option"

text \<open>
  \<open>__init__\<close> (lines 127 to 148). \<open>DOMAIN\<close> is the constant of the integration's \<open>const\<close>
  module and \<open>job\<close> the identity of the \<open>HassJob\<close> the constructor creates; both are
  parameters here. The configured name may be \<open>None\<close> or empty, which the constructor
  treats alike. The value and the extra attributes start at the defaults of the entity
  base class.
\<close>

definition EntsoeSensor_init ::
  "string \<Rightarrow> nat \<Rightarrow> EntsoeEntityDescription \<Rightarrow> string option \<Rightarrow> EntsoeSensor" where
  "EntsoeSensor_init DOMAIN job descr nm =
     (case nm of
        Some n \<Rightarrow>
          if n \<noteq> []
          then \<lparr>description = descr, entity_description = descr,
                last_update_success = True,
                entity_id = DOMAIN @ ''.'' @ n @ ''_'' @ name descr,
                attr_unique_id = ''entsoe.'' @ n @ ''_'' @ key descr,
                attr_name = name descr @ '' ('' @ n @ '')'',
                attr_native_value = PNone, attr_extra_state_attributes = None,
                update_job = job, unsub_update = None\<rparr>
          else \<lparr>description = descr, entity_description = descr,
                last_update_success = True,
                entity_id = DOMAIN @ ''.'' @ name descr,
                attr_unique_id = ''entsoe.'' @ key descr,
                attr_name = name descr,
                attr_native_value = PNone, attr_extra_state_attributes = None,
                update_job = job, unsub_update = None\<rparr>
      | None \<Rightarrow>
          \<lparr>description = descr, entity_description = descr,
           last_update_success = True,
           entity_id = DOMAIN @ ''.'' @ name descr,
           attr_unique_id = ''entsoe.'' @ key descr,
           attr_name = name descr,
           attr_native_value = PNone, attr_extra_state_attributes = None,
           update_job = job, unsub_update = None\<rparr>)"

subsection \<open>The update\<close>

text \<open>Lines 160 and 161: a pandas \<open>Timestamp\<close> becomes a \<open>datetime\<close>.\<close>

definition convert_timestamp :: "pyval \<Rightarrow> pyval" where
  "convert_timestamp v =
     (case v of PTimestamp d ns \<Rightarrow> PDatetime (to_pydatetime d ns) | _ \<Rightarrow> v)"

text \<open>Lines 166 to 170: the dictionary display reads its three values in order.\<close>

definition price_attributes :: "snapshot \<Rightarrow> pyerror + (string \<times> pyval) list" where
  "price_attributes processed =
     (case subscript processed ''prices_today'' of
        Inl e \<Rightarrow> Inl e
      | Inr today \<Rightarrow>
          (case subscript processed ''prices_tomorrow'' of
             Inl e \<Rightarrow> Inl e
           | Inr tomorrow \<Rightarrow>
               (case subscript processed ''prices'' of
                  Inl e \<Rightarrow> Inl e
                | Inr prices \<Rightarrow>
                    Inr [(''prices_today'', today), (''prices_tomorrow'', tomorrow),
                         (''prices'', prices)])))"

text \<open>
  The body of the \<open>try\<close> (lines 156 to 173). The result is the entity as the body leaves
  it, together with the exception that ended the body, if one did: an assignment made
  before the exception stays made.
\<close>

definition try_body :: "EntsoeSensor \<Rightarrow> coordinator \<Rightarrow> EntsoeSensor \<times> pyerror option" where
  "try_body self coord =
     (case processed_data coord of
        Inl e \<Rightarrow> (self, Some e)
      | Inr processed \<Rightarrow>
          (case value_fn (entity_description self) processed of
             Inl e \<Rightarrow> (self, Some e)
           | Inr v \<Rightarrow>
               (let self1 = self\<lparr>attr_native_value := convert_timestamp v\<rparr>
                in if key (description self1) = ''avg_price'' \<and> attr_native_value self1 \<noteq> PNone
                   then (case price_attributes processed of
                           Inl e \<Rightarrow> (self1, Some e)
                         | Inr attrs \<Rightarrow>
                             (self1\<lparr>attr_extra_state_attributes := Some attrs,
                                    last_update_success := True\<rparr>, None))
                   else (self1\<lparr>last_update_success := True\<rparr>, None))))"

text \<open>
  Lines 154 to 178: the guard on \<open>coordinator.data\<close>, the \<open>try\<close> and its handler, which
  catches every \<open>Exception\<close>. The two log calls are left out.
\<close>

definition update_state :: "EntsoeSensor \<Rightarrow> coordinator \<Rightarrow> EntsoeSensor" where
  "update_state self coord =
     (if data coord \<noteq> PNone
      then (case try_body self coord of
              (self1, None) \<Rightarrow> self1
            | (self1, Some e) \<Rightarrow> self1\<lparr>last_update_success := False\<rparr>)
      else self)"

text \<open>Lines 181 to 183: the pending wake-up, if there is one, is cancelled.\<close>

definition cancel_pending :: "EntsoeSensor \<Rightarrow> scheduler \<Rightarrow> EntsoeSensor \<times> scheduler" where
  "cancel_pending self sch =
     (case unsub_update self of
        None \<Rightarrow> (self, sch)
      | Some h \<Rightarrow> (self\<lparr>unsub_update := None\<rparr>, unsub h sch))"

text \<open>
  Lines 186 to 190: the next wake-up is registered. The time is computed first; if that
  raises, nothing is registered and the exception leaves \<open>async_update\<close>.
\<close>

definition schedule_next ::
  "EntsoeSensor \<Rightarrow> scheduler \<Rightarrow> pydatetime \<Rightarrow> EntsoeSensor \<times> scheduler \<times> pyerror option" where
  "schedule_next self sch now =
     (case next_update_time now of
        Inl e \<Rightarrow> (self, sch, Some e)
      | Inr t \<Rightarrow>
          (case async_track_point_in_utc_time sch (update_job self) t of
             (h, sch1) \<Rightarrow> (self\<lparr>unsub_update := Some h\<rparr>, sch1, None)))"

text \<open>
  \<open>async_update\<close> (lines 150 to 190). \<open>now\<close> is what \<open>utcnow()\<close> returns during the call.
  The result is the entity, the timers and the exception that left the call, if any.
\<close>

definition async_update ::
  "EntsoeSensor \<Rightarrow> scheduler \<Rightarrow> coordinator \<Rightarrow> pydatetime
     \<Rightarrow> EntsoeSensor \<times> scheduler \<times> pyerror option" where
  "async_update self sch coord now =
     (case cancel_pending (update_state self coord) sch of
        (self1, sch1) \<Rightarrow> schedule_next self1 sch1 now)"

text \<open>\<open>available\<close> (lines 192 to 195).\<close>

definition available :: "EntsoeSensor \<Rightarrow> bool" where
  "available self = last_update_success self"

text \<open>The wake-ups of an entity that are pending: those registered for its job.\<close>

definition pending_of :: "EntsoeSensor \<Rightarrow> scheduler \<Rightarrow> (nat \<times> nat \<times> pydatetime) list" where
  "pending_of self sch = filter (\<lambda>w. fst (snd w) = update_job self) (pending sch)"

text \<open>
  A sequence of update calls, each with the coordinator and the clock as they are at the
  call. An exception that leaves a call is the caller's; the entity and the timers stay
  as the call left them.
\<close>

fun run_updates ::
  "EntsoeSensor \<times> scheduler \<Rightarrow> (coordinator \<times> pydatetime) list \<Rightarrow> EntsoeSensor \<times> scheduler" where
  "run_updates st [] = st"
| "run_updates (self, sch) ((coord, now) # calls) =
     (case async_update self sch coord now of
        (self1, sch1, _) \<Rightarrow> run_updates (self1, sch1) calls)"

section \<open>Notions used in the properties\<close>



text \<open>The keys and display names of the catalogue, in its order.\<close>

definition catalogue_keys :: "string list" where
  "catalogue_keys =
     [''current_price'', ''next_hour_price'', ''min_price'', ''max_price'', ''avg_price'',
      ''percentage_of_max'', ''highest_price_time_today'', ''lowest_price_time_today'']"

definition catalogue_names :: "string list" where
  "catalogue_names =
     [''Current electricity market price'', ''Next hour electricity market price'',
      ''Lowest energy price today'', ''Highest energy price today'',
      ''Average electricity price today'',
      ''Current percentage of highest electricity price today'',
      ''Time of highest price today'', ''Time of lowest price today'']"

text \<open>
  The configured name as the constructor reads it (line 132): \<open>None\<close> and the empty
  string both stand for no name.
\<close>

definition configured_name :: "string option \<Rightarrow> string" where
  "configured_name nm = (case nm of None \<Rightarrow> [] | Some n \<Rightarrow> n)"

definition price_keys :: "string list" where
  "price_keys =
     [''current_price'', ''next_hour_price'', ''min_price'', ''max_price'', ''avg_price'']"

text \<open>
  The state of an entity and the host's timers fit together when the handles of the
  pending wake-ups are distinct and were all handed out already, and every pending
  wake-up of the entity's job is the one whose cancel callable the entity holds. A new
  entity, which holds none, fits timers that have no wake-up of its job.
\<close>

definition timers_ok :: "EntsoeSensor \<Rightarrow> scheduler \<Rightarrow> bool" where
  "timers_ok self sch =
     (distinct (map fst (pending sch)) \<and>
      list_all (\<lambda>w. fst w < next_handle sch) (pending sch) \<and>
      list_all (\<lambda>w. unsub_update self = Some (fst w)) (pending_of self sch))"

subsection \<open>Example data\<close>

text \<open>A clock reading, 2024-01-01 12:34:56.789012 UTC.\<close>

definition example_now :: pydatetime where
  "example_now =
     \<lparr>ordinal = 738886, hour = 12, minute = 34, second = 56, microsecond = 789012\<rparr>"

text \<open>A complete snapshot, and coordinators with it, with defective ones, and with none.\<close>

definition example_snapshot :: snapshot where
  "example_snapshot =
     [''current_price'' \<mapsto> PInt 50, ''next_hour_price'' \<mapsto> PInt 60,
      ''min_price'' \<mapsto> PInt 10, ''max_price'' \<mapsto> PInt 100,
      ''avg_price'' \<mapsto> PFloat (Finite (111 / 2)),
      ''time_min'' \<mapsto>
         PTimestamp \<lparr>ordinal = 738886, hour = 3, minute = 0, second = 0, microsecond = 0\<rparr> 0,
      ''time_max'' \<mapsto>
         PTimestamp \<lparr>ordinal = 738886, hour = 18, minute = 0, second = 0, microsecond = 0\<rparr> 0,
      ''prices_today'' \<mapsto> PList [PInt 10, PInt 100],
      ''prices_tomorrow'' \<mapsto> PList [],
      ''prices'' \<mapsto> PList [PInt 10, PInt 100]]"

definition example_coordinator :: coordinator where
  "example_coordinator = \<lparr>data = PDict [], processed_data = Inr example_snapshot\<rparr>"

definition example_zero_max :: coordinator where
  "example_zero_max =
     \<lparr>data = PDict [],
      processed_data = Inr [''current_price'' \<mapsto> PInt 50, ''max_price'' \<mapsto> PInt 0]\<rparr>"

definition example_null_price :: coordinator where
  "example_null_price =
     \<lparr>data = PDict [], processed_data = Inr (example_snapshot(''current_price'' \<mapsto> PNone))\<rparr>"

definition example_no_curves :: coordinator where
  "example_no_curves =
     \<lparr>data = PDict [], processed_data = Inr [''avg_price'' \<mapsto> PFloat (Finite (1 / 4))]\<rparr>"

definition example_no_data :: coordinator where
  "example_no_data = \<lparr>data = PNone, processed_data = Inl (OtherError ''no data'')\<rparr>"

text \<open>
  The entity of the \<open>i\<close>-th metric under the configured name \<open>home\<close>, as an earlier
  update left it: it shows the value 42 and holds the cancel callable of the wake-up
  with handle 0, which is pending in \<open>example_timers\<close>.
\<close>

definition example_sensor :: "nat \<Rightarrow> EntsoeSensor" where
  "example_sensor i =
     (EntsoeSensor_init ''entsoe'' 7 (sensor_descriptions ''EUR'' ! i) (Some ''home''))
       \<lparr>attr_native_value := PInt 42, unsub_update := Some 0\<rparr>"

definition example_timers :: scheduler where
  "example_timers =
     \<lparr>pending =
        [(0, 7, \<lparr>ordinal = 738886, hour = 13, minute = 0, second = 0, microsecond = 0\<rparr>)],
      next_handle = 1\<rparr>"

section \<open>Properties\<close>

subsection \<open>Auxiliary facts\<close>

lemma update_state_job [simp]: "update_job (update_state self coord) = update_job self"
  by (simp add: update_state_def try_body_def Let_def split: sum.splits option.splits prod.splits)

lemma update_state_unsub [simp]:
  "unsub_update (update_state self coord) = unsub_update self"
  by (simp add: update_state_def try_body_def Let_def split: sum.splits option.splits prod.splits)

lemma async_update_value [simp]:
  "attr_native_value (fst (async_update self sch coord now)) =
     attr_native_value (update_state self coord)"
  by (simp add: async_update_def cancel_pending_def schedule_next_def
      async_track_point_in_utc_time_def split: option.splits sum.splits prod.splits)

lemma async_update_success [simp]:
  "last_update_success (fst (async_update self sch coord now)) =
     last_update_success (update_state self coord)"
  by (simp add: async_update_def cancel_pending_def schedule_next_def
      async_track_point_in_utc_time_def split: option.splits sum.splits prod.splits)

lemma async_update_attributes [simp]:
  "attr_extra_state_attributes (fst (async_update self sch coord now)) =
     attr_extra_state_attributes (update_state self coord)"
  by (simp add: async_update_def cancel_pending_def schedule_next_def
      async_track_point_in_utc_time_def split: option.splits sum.splits prod.splits)

text \<open>The only exception that can leave \<open>async_update\<close> is that of the time computation.\<close>

lemma async_update_error:
  "snd (snd (async_update self sch coord now)) =
     (case next_update_time now of Inl e \<Rightarrow> Some e | Inr t \<Rightarrow> None)"
  by (simp add: async_update_def cancel_pending_def schedule_next_def
      async_track_point_in_utc_time_def split: option.splits sum.splits prod.splits)

lemma next_update_time_example:
  "next_update_time example_now =
     Inr \<lparr>ordinal = 738886, hour = 13, minute = 0, second = 0, microsecond = 789012\<rparr>"
  by (simp add: example_now_def next_update_time_def datetime_add_def
      replace_minute_second_def timedelta_hours_def MAXORDINAL_def)

text \<open>
  The time computation on a well-formed clock reading: it raises only in the last hour
  of the year 9999, and otherwise gives the next hour with minute and second zero and
  the microsecond of the reading.
\<close>

lemma next_update_time_valid:
  assumes "valid_datetime now"
  shows "next_update_time now =
           (if int (ordinal now) < MAXORDINAL \<or> hour now < 23
            then Inr \<lparr>ordinal = (if hour now < 23 then ordinal now else Suc (ordinal now)),
                      hour = (if hour now < 23 then Suc (hour now) else 0),
                      minute = 0, second = 0, microsecond = microsecond now\<rparr>
            else Inl OverflowError)"
proof (cases "hour now < 23")
  case True
  then have "hour now * 3600 + 3600 < 86400" by simp
  then have "(hour now * 3600 + 3600) div 86400 = 0"
    and "(hour now * 3600 + 3600) mod 86400 = Suc (hour now) * 3600" by simp_all
  with True assms show ?thesis
    by (simp add: valid_datetime_def next_update_time_def datetime_add_def
        replace_minute_second_def timedelta_hours_def MAXORDINAL_def)
next
  case False
  with assms have "hour now = 23" by (simp add: valid_datetime_def)
  with assms show ?thesis
    by (auto simp add: valid_datetime_def next_update_time_def datetime_add_def
        replace_minute_second_def timedelta_hours_def MAXORDINAL_def)
qed

text \<open>
  Compared with the specification's next whole hour: the two agree exactly on the clock
  readings whose microsecond is zero.
\<close>

lemma next_update_time_vs_spec:
  assumes "valid_datetime now" and "int (ordinal now) < MAXORDINAL \<or> hour now < 23"
  shows "(next_update_time now = spec_next_whole_hour now) = (microsecond now = 0)"
proof -
  let ?t = "spec_truncate_to_hour now"
  have v: "valid_datetime ?t"
    using assms(1) by (simp add: valid_datetime_def spec_truncate_to_hour_def)
  have r: "replace_minute_second ?t 0 0 = ?t"
    by (simp add: replace_minute_second_def spec_truncate_to_hour_def)
  have "spec_next_whole_hour now = next_update_time ?t"
    by (simp add: spec_next_whole_hour_def next_update_time_def r)
  also have "\<dots> =
      Inr \<lparr>ordinal = (if hour now < 23 then ordinal now else Suc (ordinal now)),
           hour = (if hour now < 23 then Suc (hour now) else 0),
           minute = 0, second = 0, microsecond = 0\<rparr>"
    using next_update_time_valid[OF v] assms(2) by (simp add: spec_truncate_to_hour_def)
  finally show ?thesis
    using next_update_time_valid[OF assms(1)] assms(2) by auto
qed

subsection \<open>Updates that fail\<close>

text \<open>
  Claim C1, as amended. When the coordinator holds a snapshot and the body of the
  \<open>try\<close> ends in an exception, the entity becomes unavailable, its extra attributes stay
  as they were, and no exception of the attempt leaves the call (what leaves it, if
  anything, is the exception of the time computation). The current value stays as it was
  when the exception came from \<open>processed_data()\<close> or from the extraction function; when
  the extraction returned a value and the exception came from reading the price curves,
  the value has been stored already.
\<close>

theorem failed_update_absorbed:
  assumes "data coord \<noteq> PNone" and "snd (try_body self coord) = Some e"
  shows "\<not> available (fst (async_update self sch coord now)) \<and>
         attr_extra_state_attributes (fst (async_update self sch coord now)) =
           attr_extra_state_attributes self \<and>
         snd (snd (async_update self sch coord now)) =
           (case next_update_time now of Inl e' \<Rightarrow> Some e' | Inr t \<Rightarrow> None) \<and>
         (processed_data coord = Inl e \<longrightarrow>
            attr_native_value (fst (async_update self sch coord now)) =
              attr_native_value self) \<and>
         (\<forall>processed. processed_data coord = Inr processed \<longrightarrow>
            value_fn (entity_description self) processed = Inl e \<longrightarrow>
            attr_native_value (fst (async_update self sch coord now)) =
              attr_native_value self) \<and>
         (\<forall>processed v. processed_data coord = Inr processed \<longrightarrow>
            value_fn (entity_description self) processed = Inr v \<longrightarrow>
            price_attributes processed = Inl e \<and>
            attr_native_value (fst (async_update self sch coord now)) =
              convert_timestamp v)"
  using assms
  by (auto simp add: available_def async_update_error update_state_def try_body_def Let_def
      split: sum.splits option.splits prod.splits if_splits)

text \<open>
  An instance: the percentage entity meets a snapshot whose \<open>max_price\<close> is zero. The
  extraction raises, the entity becomes unavailable, keeps the value 42 and its
  attributes, and the call returns normally.
\<close>

theorem failed_update_absorbed_witness:
  "data example_zero_max \<noteq> PNone \<and>
   snd (try_body (example_sensor 5) example_zero_max) = Some ZeroDivisionError \<and>
   \<not> available (fst (async_update (example_sensor 5) example_timers example_zero_max example_now)) \<and>
   attr_extra_state_attributes
     (fst (async_update (example_sensor 5) example_timers example_zero_max example_now)) = None \<and>
   attr_native_value
     (fst (async_update (example_sensor 5) example_timers example_zero_max example_now)) = PInt 42 \<and>
   snd (snd (async_update (example_sensor 5) example_timers example_zero_max example_now)) = None"
proof -
  have d: "data example_zero_max \<noteq> PNone"
    by (simp add: example_zero_max_def)
  have t: "snd (try_body (example_sensor 5) example_zero_max) = Some ZeroDivisionError"
    by (simp add: example_zero_max_def example_sensor_def EntsoeSensor_init_def
        sensor_descriptions_def try_body_def percentage_of_max_def subscript_def py_truediv_def)
  have p: "processed_data example_zero_max =
             Inr [''current_price'' \<mapsto> PInt 50, ''max_price'' \<mapsto> PInt 0]"
    by (simp add: example_zero_max_def)
  have v: "value_fn (entity_description (example_sensor 5))
             [''current_price'' \<mapsto> PInt 50, ''max_price'' \<mapsto> PInt 0] = Inl ZeroDivisionError"
    by (simp add: example_sensor_def EntsoeSensor_init_def
        sensor_descriptions_def percentage_of_max_def subscript_def py_truediv_def)
  have a: "attr_native_value (example_sensor 5) = PInt 42"
    and x: "attr_extra_state_attributes (example_sensor 5) = None"
    by (simp_all add: example_sensor_def EntsoeSensor_init_def)
  from failed_update_absorbed[OF d t, of example_timers example_now] d t p v a x
  show ?thesis
    by (simp add: next_update_time_example)
qed

text \<open>
  The claim as it was stated fails: the average-price entity meets a snapshot that has
  \<open>avg_price\<close> but no price curves. Reading \<open>prices_today\<close> raises after the new value
  was stored, so the value 42 of the last successful update is overwritten.
\<close>

theorem failed_update_overwrites_value:
  "data example_no_curves \<noteq> PNone \<and>
   snd (try_body (example_sensor 4) example_no_curves) = Some (KeyError ''prices_today'') \<and>
   attr_native_value (example_sensor 4) = PInt 42 \<and>
   attr_native_value
     (fst (async_update (example_sensor 4) example_timers example_no_curves example_now)) =
     PFloat (Finite (1 / 4)) \<and>
   \<not> available
     (fst (async_update (example_sensor 4) example_timers example_no_curves example_now))"
  by (simp add: example_no_curves_def example_sensor_def EntsoeSensor_init_def
      sensor_descriptions_def update_state_def try_body_def price_attributes_def subscript_def
      convert_timestamp_def available_def)

subsection \<open>Updates without a snapshot\<close>

text \<open>
  Claim C5. When \<open>coordinator.data\<close> is \<open>None\<close>, an update leaves the availability flag,
  the current value and the extra attributes as they were, whatever they were.
\<close>

theorem update_without_snapshot_keeps_state:
  assumes "data coord = PNone"
  shows "available (fst (async_update self sch coord now)) = available self \<and>
         attr_native_value (fst (async_update self sch coord now)) = attr_native_value self \<and>
         attr_extra_state_attributes (fst (async_update self sch coord now)) =
           attr_extra_state_attributes self"
  using assms by (simp add: available_def update_state_def)

text \<open>
  An instance: an entity that is unavailable and shows 42 stays unavailable and keeps
  showing 42.
\<close>

theorem update_without_snapshot_keeps_state_witness:
  "data example_no_data = PNone \<and>
   \<not> available
      (fst (async_update ((example_sensor 0)\<lparr>last_update_success := False\<rparr>) example_timers
             example_no_data example_now)) \<and>
   attr_native_value
      (fst (async_update ((example_sensor 0)\<lparr>last_update_success := False\<rparr>) example_timers
             example_no_data example_now)) = PInt 42 \<and>
   attr_extra_state_attributes
      (fst (async_update ((example_sensor 0)\<lparr>last_update_success := False\<rparr>) example_timers
             example_no_data example_now)) = None"
proof -
  have d: "data example_no_data = PNone"
    by (simp add: example_no_data_def)
  from update_without_snapshot_keeps_state[OF d,
      of "(example_sensor 0)\<lparr>last_update_success := False\<rparr>" example_timers example_now] d
  show ?thesis
    by (simp add: available_def example_sensor_def EntsoeSensor_init_def)
qed

text \<open>
  Claim C3, as amended. The cancellation and the new wake-up do not depend on the
  coordinator: every update call whose time computation succeeds, also one made while
  \<open>coordinator.data\<close> is \<open>None\<close>, cancels the wake-up the entity holds, if it holds one,
  and registers one new wake-up of its job at the computed time.
\<close>

theorem update_always_reschedules:
  assumes "next_update_time now = Inr t"
  shows "async_update self sch coord now =
           ((update_state self coord)\<lparr>unsub_update := Some (next_handle sch)\<rparr>,
            \<lparr>pending =
               (case unsub_update self of
                  None \<Rightarrow> pending sch
                | Some h \<Rightarrow> filter (\<lambda>w. fst w \<noteq> h) (pending sch)) @
               [(next_handle sch, update_job self, t)],
             next_handle = Suc (next_handle sch)\<rparr>,
            None)"
  using assms
  by (simp add: async_update_def cancel_pending_def schedule_next_def
      async_track_point_in_utc_time_def unsub_def split: option.splits)

text \<open>
  An instance: at the example clock reading the timers end with the one new wake-up,
  whose handle is 1.
\<close>

theorem update_always_reschedules_witness:
  "next_update_time example_now =
     Inr \<lparr>ordinal = 738886, hour = 13, minute = 0, second = 0, microsecond = 789012\<rparr> \<and>
   data example_no_data = PNone \<and>
   snd (async_update (example_sensor 0) example_timers example_no_data example_now) =
     (\<lparr>pending =
         [(1, 7, \<lparr>ordinal = 738886, hour = 13, minute = 0, second = 0, microsecond = 789012\<rparr>)],
       next_handle = 2\<rparr>,
      None)"
  using update_always_reschedules[OF next_update_time_example,
      of "example_sensor 0" example_timers example_no_data]
  by (simp add: next_update_time_example example_no_data_def example_timers_def
      example_sensor_def EntsoeSensor_init_def)

text \<open>
  The claim as it was stated fails: with \<open>coordinator.data\<close> being \<open>None\<close>, the pending
  wake-up with handle 0 is cancelled all the same and a wake-up with handle 1 is
  registered.
\<close>

theorem update_without_snapshot_reschedules:
  "data example_no_data = PNone \<and>
   unsub_update (example_sensor 0) = Some 0 \<and>
   pending example_timers =
     [(0, 7, \<lparr>ordinal = 738886, hour = 13, minute = 0, second = 0, microsecond = 0\<rparr>)] \<and>
   pending (fst (snd (async_update (example_sensor 0) example_timers example_no_data example_now))) =
     [(1, 7, \<lparr>ordinal = 738886, hour = 13, minute = 0, second = 0, microsecond = 789012\<rparr>)] \<and>
   unsub_update (fst (async_update (example_sensor 0) example_timers example_no_data example_now)) =
     Some 1"
  by (simp add: async_update_def cancel_pending_def schedule_next_def next_update_time_example
      async_track_point_in_utc_time_def unsub_def example_timers_def example_no_data_def
      example_sensor_def EntsoeSensor_init_def update_state_def)

subsection \<open>Updates that succeed\<close>

text \<open>
  Claim C10. When the coordinator holds a snapshot and the extraction function returns
  \<open>None\<close> without raising, the update stores \<open>None\<close> as the current value, whatever the
  value was, and the entity is available.
\<close>

theorem null_extraction_is_stored:
  assumes "data coord \<noteq> PNone"
    and "processed_data coord = Inr processed"
    and "value_fn (entity_description self) processed = Inr PNone"
  shows "attr_native_value (fst (async_update self sch coord now)) = PNone \<and>
         available (fst (async_update self sch coord now))"
  using assms
  by (simp add: available_def update_state_def try_body_def convert_timestamp_def)

text \<open>
  An instance: the current-price entity shows 42 and is unavailable; a snapshot whose
  \<open>current_price\<close> is \<open>None\<close> makes it show \<open>None\<close> and be available.
\<close>

theorem null_extraction_is_stored_witness:
  "data example_null_price \<noteq> PNone \<and>
   processed_data example_null_price = Inr (example_snapshot(''current_price'' \<mapsto> PNone)) \<and>
   value_fn (entity_description ((example_sensor 0)\<lparr>last_update_success := False\<rparr>))
     (example_snapshot(''current_price'' \<mapsto> PNone)) = Inr PNone \<and>
   attr_native_value ((example_sensor 0)\<lparr>last_update_success := False\<rparr>) = PInt 42 \<and>
   attr_native_value
     (fst (async_update ((example_sensor 0)\<lparr>last_update_success := False\<rparr>) example_timers
            example_null_price example_now)) = PNone \<and>
   available
     (fst (async_update ((example_sensor 0)\<lparr>last_update_success := False\<rparr>) example_timers
            example_null_price example_now))"
proof -
  have d: "data example_null_price \<noteq> PNone"
    and p: "processed_data example_null_price = Inr (example_snapshot(''current_price'' \<mapsto> PNone))"
    by (simp_all add: example_null_price_def)
  have v: "value_fn (entity_description ((example_sensor 0)\<lparr>last_update_success := False\<rparr>))
             (example_snapshot(''current_price'' \<mapsto> PNone)) = Inr PNone"
    by (simp add: example_sensor_def EntsoeSensor_init_def sensor_descriptions_def subscript_def)
  have a: "attr_native_value ((example_sensor 0)\<lparr>last_update_success := False\<rparr>) = PInt 42"
    by (simp add: example_sensor_def EntsoeSensor_init_def)
  from null_extraction_is_stored[OF d p v, of example_timers example_now] d p v a
  show ?thesis by simp
qed

text \<open>
  Claim C7. When the coordinator holds a snapshot, the update of an entity whose metric
  key is \<open>avg_price\<close> that extracts a value other than \<open>None\<close> and ends without an
  exception sets the extra attributes to the snapshot's \<open>prices_today\<close>,
  \<open>prices_tomorrow\<close> and \<open>prices\<close>, as they are. An update of an entity with any other
  metric key leaves the extra attributes as they were.
\<close>

theorem extra_attributes_only_for_average:
  "(data coord \<noteq> PNone \<longrightarrow> key (description self) = ''avg_price'' \<longrightarrow>
      processed_data coord = Inr processed \<longrightarrow>
      value_fn (entity_description self) processed = Inr v \<longrightarrow> v \<noteq> PNone \<longrightarrow>
      snd (try_body self coord) = None \<longrightarrow>
      (\<exists>today tomorrow prices.
         processed ''prices_today'' = Some today \<and>
         processed ''prices_tomorrow'' = Some tomorrow \<and>
         processed ''prices'' = Some prices \<and>
         attr_extra_state_attributes (fst (async_update self sch coord now)) =
           Some [(''prices_today'', today), (''prices_tomorrow'', tomorrow),
                 (''prices'', prices)])) \<and>
   (key (description self) \<noteq> ''avg_price'' \<longrightarrow>
      attr_extra_state_attributes (fst (async_update self sch coord now)) =
        attr_extra_state_attributes self)"
  by (auto simp add: update_state_def try_body_def price_attributes_def subscript_def
      convert_timestamp_def split: sum.splits option.splits pyval.splits)

text \<open>
  An instance: the average-price entity takes the three curves of the example snapshot,
  and the current-price entity, updated from the same snapshot, keeps having none.
\<close>

theorem extra_attributes_only_for_average_witness:
  "data example_coordinator \<noteq> PNone \<and>
   key (description (example_sensor 4)) = ''avg_price'' \<and>
   processed_data example_coordinator = Inr example_snapshot \<and>
   value_fn (entity_description (example_sensor 4)) example_snapshot =
     Inr (PFloat (Finite (111 / 2))) \<and>
   snd (try_body (example_sensor 4) example_coordinator) = None \<and>
   attr_extra_state_attributes
     (fst (async_update (example_sensor 4) example_timers example_coordinator example_now)) =
     Some [(''prices_today'', PList [PInt 10, PInt 100]), (''prices_tomorrow'', PList []),
           (''prices'', PList [PInt 10, PInt 100])] \<and>
   key (description (example_sensor 0)) \<noteq> ''avg_price'' \<and>
   attr_extra_state_attributes
     (fst (async_update (example_sensor 0) example_timers example_coordinator example_now)) = None"
proof -
  have d: "data example_coordinator \<noteq> PNone"
    and p: "processed_data example_coordinator = Inr example_snapshot"
    by (simp_all add: example_coordinator_def)
  have k: "key (description (example_sensor 4)) = ''avg_price''"
    and k0: "key (description (example_sensor 0)) \<noteq> ''avg_price''"
    and x0: "attr_extra_state_attributes (example_sensor 0) = None"
    by (simp_all add: example_sensor_def EntsoeSensor_init_def sensor_descriptions_def)
  have v: "value_fn (entity_description (example_sensor 4)) example_snapshot =
             Inr (PFloat (Finite (111 / 2)))"
    by (simp add: example_sensor_def EntsoeSensor_init_def sensor_descriptions_def
        subscript_def example_snapshot_def)
  have c: "price_attributes example_snapshot =
             Inr [(''prices_today'', PList [PInt 10, PInt 100]), (''prices_tomorrow'', PList []),
                  (''prices'', PList [PInt 10, PInt 100])]"
    by (simp add: price_attributes_def subscript_def example_snapshot_def)
  have t: "snd (try_body (example_sensor 4) example_coordinator) = None"
    by (simp add: try_body_def p v k c convert_timestamp_def)
  have s: "example_snapshot ''prices_today'' = Some (PList [PInt 10, PInt 100])"
      "example_snapshot ''prices_tomorrow'' = Some (PList [])"
      "example_snapshot ''prices'' = Some (PList [PInt 10, PInt 100])"
    by (simp_all add: example_snapshot_def)
  from extra_attributes_only_for_average[of example_coordinator "example_sensor 4"
      example_snapshot "PFloat (Finite (111 / 2))" example_timers example_now]
    extra_attributes_only_for_average[of example_coordinator "example_sensor 0"
      example_snapshot "PFloat (Finite (111 / 2))" example_timers example_now]
    d p k k0 x0 v t s
  show ?thesis by auto
qed

subsection \<open>The time of the next wake-up\<close>

text \<open>
  Claim C4. The scheduled time should be the clock reading truncated to the whole hour
  plus one hour. At 12:34:56.789012 the code schedules 13:00:00.789012, which is what
  \<open>async_update\<close> registers, and not 13:00:00 sharp: \<open>replace(minute=0, second=0)\<close> keeps
  the microsecond.
\<close>

theorem next_wakeup_keeps_microsecond:
  "next_update_time example_now =
     Inr \<lparr>ordinal = 738886, hour = 13, minute = 0, second = 0, microsecond = 789012\<rparr> \<and>
   spec_next_whole_hour example_now =
     Inr \<lparr>ordinal = 738886, hour = 13, minute = 0, second = 0, microsecond = 0\<rparr> \<and>
   pending (fst (snd (async_update (example_sensor 0) example_timers example_coordinator
                        example_now))) =
     [(1, 7, \<lparr>ordinal = 738886, hour = 13, minute = 0, second = 0, microsecond = 789012\<rparr>)]"
  by (simp add: next_update_time_example async_update_def cancel_pending_def schedule_next_def
      async_track_point_in_utc_time_def unsub_def example_timers_def example_sensor_def
      EntsoeSensor_init_def)
    (simp add: example_now_def spec_next_whole_hour_def spec_truncate_to_hour_def
      datetime_add_def timedelta_hours_def MAXORDINAL_def)

subsection \<open>The catalogue\<close>

text \<open>
  Claim C8, as amended. For every currency code, the five price metrics have the unit
  made of the currency code, a slash and \<open>kWh\<close>, which contains the currency code; the
  percentage metric has the unit \<open>%\<close>, and the two time metrics have no unit.
\<close>

theorem units_of_catalogue:
  "\<forall>d \<in> set (sensor_descriptions currency).
     (key d \<in> set price_keys \<longrightarrow>
        native_unit_of_measurement d = Some (currency @ ''/kWh'') \<and>
        (\<exists>u. native_unit_of_measurement d = Some u \<and> sublist currency u)) \<and>
     (key d = ''percentage_of_max'' \<longrightarrow> native_unit_of_measurement d = Some ''%'') \<and>
     (key d \<notin> set price_keys \<and> key d \<noteq> ''percentage_of_max'' \<longrightarrow>
        native_unit_of_measurement d = None)"
  by (simp add: sensor_descriptions_def price_keys_def KILO_WATT_HOUR_def PERCENTAGE_def)

text \<open>An instance: the unit of the first metric for the currency \<open>EUR\<close>.\<close>

theorem units_of_catalogue_witness:
  "sensor_descriptions ''EUR'' ! 0 \<in> set (sensor_descriptions ''EUR'') \<and>
   key (sensor_descriptions ''EUR'' ! 0) \<in> set price_keys \<and>
   native_unit_of_measurement (sensor_descriptions ''EUR'' ! 0) = Some ''EUR/kWh'' \<and>
   sublist ''EUR'' ''EUR/kWh''"
proof -
  have m: "sensor_descriptions ''EUR'' ! 0 \<in> set (sensor_descriptions ''EUR'')"
    by (simp add: sensor_descriptions_def)
  have k: "key (sensor_descriptions ''EUR'' ! 0) \<in> set price_keys"
    by (simp add: sensor_descriptions_def price_keys_def)
  from bspec[OF units_of_catalogue[of "''EUR''"] m] k m
  show ?thesis by auto
qed

text \<open>
  The claim as it was stated fails: for the currency \<open>EUR\<close>, the unit of the percentage
  metric is \<open>%\<close>, which does not contain \<open>EUR\<close>, and the metric after it has no unit.
\<close>

theorem unit_without_currency:
  "key (sensor_descriptions ''EUR'' ! 5) = ''percentage_of_max'' \<and>
   native_unit_of_measurement (sensor_descriptions ''EUR'' ! 5) = Some ''%'' \<and>
   \<not> sublist ''EUR'' ''%'' \<and>
   key (sensor_descriptions ''EUR'' ! 6) = ''highest_price_time_today'' \<and>
   native_unit_of_measurement (sensor_descriptions ''EUR'' ! 6) = None"
  by (simp add: sensor_descriptions_def PERCENTAGE_def sublist_Cons_right)

subsection \<open>Rounding\<close>









lemma pow2_nonzero: "pow2 e \<noteq> 0"
  by (simp add: pow2_def)









subsection \<open>The percentage of the maximum\<close>

lemma round_b64_0 [simp]: "round_b64 0 = Finite 0"
  by (simp add: round_b64_def)

lemma int_to_float_0 [simp]: "int_to_float 0 = Inr (Finite 0)"
  by (simp add: int_to_float_def)


lemma float_truediv_zero [simp]: "float_truediv f (Finite 0) = Inl ZeroDivisionError"
  by (simp add: float_truediv_def is_zero_def)











subsection \<open>The pending wake-up\<close>

lemma pending_of_at_most_one:
  assumes "timers_ok self sch"
  shows "length (pending_of self sch) \<le> 1"
proof -
  have d: "distinct (map fst (pending_of self sch))"
    using assms by (simp add: timers_ok_def pending_of_def distinct_map_filter)
  have same: "\<forall>w \<in> set (pending_of self sch). unsub_update self = Some (fst w)"
    using assms by (simp add: timers_ok_def list_all_iff)
  show ?thesis
  proof (cases "pending_of self sch")
    case Nil
    then show ?thesis by simp
  next
    case (Cons w ws)
    show ?thesis
    proof (cases ws)
      case Nil
      with Cons show ?thesis by simp
    next
      case (Cons w' ws')
      with \<open>pending_of self sch = w # ws\<close> same d show ?thesis by auto
    qed
  qed
qed

lemma cancel_pending_clears:
  assumes "timers_ok self sch" and "cancel_pending self sch = (self1, sch1)"
  shows "pending_of self1 sch1 = [] \<and> unsub_update self1 = None \<and>
         update_job self1 = update_job self \<and> next_handle sch1 = next_handle sch \<and>
         distinct (map fst (pending sch1)) \<and>
         list_all (\<lambda>w. fst w < next_handle sch1) (pending sch1)"
proof -
  from assms(1) have d: "distinct (map fst (pending sch))"
    and below: "\<And>w. w \<in> set (pending sch) \<Longrightarrow> fst w < next_handle sch"
    by (simp_all add: timers_ok_def list_all_iff)
  from assms(1) have own: "\<forall>w \<in> set (pending_of self sch). unsub_update self = Some (fst w)"
    by (simp add: timers_ok_def list_all_iff)
  have mine: "unsub_update self = Some (fst w)"
    if "w \<in> set (pending sch)" and "fst (snd w) = update_job self" for w
  proof -
    from that have "w \<in> set (pending_of self sch)" by (simp add: pending_of_def)
    then show ?thesis by (rule bspec[OF own])
  qed
  show ?thesis
  proof (cases "unsub_update self")
    case None
    with assms(2) have r: "self1 = self" "sch1 = sch"
      by (simp_all add: cancel_pending_def)
    have "pending_of self sch = []"
      using mine None by (auto simp add: pending_of_def filter_empty_conv)
    with d below None show ?thesis by (simp add: r list_all_iff)
  next
    case (Some h)
    with assms(2) have r: "self1 = self\<lparr>unsub_update := None\<rparr>"
        "sch1 = sch\<lparr>pending := filter (\<lambda>w. fst w \<noteq> h) (pending sch)\<rparr>"
      by (simp_all add: cancel_pending_def unsub_def)
    have "pending_of self1 sch1 = []"
      using mine Some by (auto simp add: r pending_of_def filter_empty_conv)
    moreover have "distinct (map fst (pending sch1))"
      using d by (simp add: r distinct_map_filter)
    moreover have "list_all (\<lambda>w. fst w < next_handle sch1) (pending sch1)"
      using below by (simp add: r list_all_iff)
    ultimately show ?thesis by (simp add: r)
  qed
qed

lemma schedule_next_ok:
  assumes "pending_of self sch = []" and "unsub_update self = None"
    and "distinct (map fst (pending sch))"
    and "list_all (\<lambda>w. fst w < next_handle sch) (pending sch)"
    and "schedule_next self sch now = (self1, sch1, err)"
  shows "timers_ok self1 sch1 \<and>
         (\<forall>t. next_update_time now = Inr t \<longrightarrow>
            pending_of self1 sch1 = [(next_handle sch, update_job self, t)])"
proof (cases "next_update_time now")
  case (Inl e)
  with assms show ?thesis
    by (auto simp add: schedule_next_def timers_ok_def)
next
  case (Inr t)
  from assms(1) have none: "\<And>w. w \<in> set (pending sch) \<Longrightarrow> fst (snd w) \<noteq> update_job self"
    by (auto simp add: pending_of_def filter_empty_conv)
  from assms(4) have below: "\<And>w. w \<in> set (pending sch) \<Longrightarrow> fst w < next_handle sch"
    by (simp add: list_all_iff)
  from assms(5) Inr have r: "self1 = self\<lparr>unsub_update := Some (next_handle sch)\<rparr>"
      "sch1 = sch\<lparr>pending := pending sch @ [(next_handle sch, update_job self, t)],
                    next_handle := Suc (next_handle sch)\<rparr>"
    by (simp_all add: schedule_next_def async_track_point_in_utc_time_def)
  have f: "filter (\<lambda>w. fst (snd w) = update_job self) (pending sch) = []"
    using none by (simp add: filter_empty_conv)
  have p: "pending_of self1 sch1 = [(next_handle sch, update_job self, t)]"
    by (simp add: r pending_of_def f)
  have fresh: "next_handle sch \<notin> fst ` set (pending sch)"
  proof
    assume "next_handle sch \<in> fst ` set (pending sch)"
    then obtain w where "w \<in> set (pending sch)" and "fst w = next_handle sch" by auto
    with below[of w] show False by simp
  qed
  have d: "distinct (map fst (pending sch1))"
    using assms(3) fresh by (simp add: r)
  have b: "list_all (\<lambda>w. fst w < next_handle sch1) (pending sch1)"
    using below by (auto simp add: r list_all_iff less_Suc_eq)
  have "timers_ok self1 sch1"
    unfolding timers_ok_def using d b by (simp add: p) (simp add: r)
  with p Inr show ?thesis by simp
qed

lemma timers_ok_update_state [simp]:
  "timers_ok (update_state self coord) sch = timers_ok self sch"
  by (simp add: timers_ok_def pending_of_def)

lemma async_update_timers_ok:
  assumes "timers_ok self sch" and "async_update self sch coord now = (self1, sch1, err)"
  shows "timers_ok self1 sch1"
proof -
  obtain s0 sc0 where c: "cancel_pending (update_state self coord) sch = (s0, sc0)"
    by (cases "cancel_pending (update_state self coord) sch")
  with assms(2) have s: "schedule_next s0 sc0 now = (self1, sch1, err)"
    by (simp add: async_update_def)
  from assms(1) have "timers_ok (update_state self coord) sch" by simp
  from cancel_pending_clears[OF this c] schedule_next_ok[OF _ _ _ _ s]
  show ?thesis by blast
qed

lemma run_updates_timers_ok:
  assumes "timers_ok self sch" and "run_updates (self, sch) calls = (s, sc)"
  shows "timers_ok s sc"
  using assms
proof (induction calls arbitrary: self sch)
  case Nil
  then show ?case by simp
next
  case (Cons c calls)
  obtain coord now where c: "c = (coord, now)" by (cases c)
  obtain self1 sch1 err where u: "async_update self sch coord now = (self1, sch1, err)"
    by (cases "async_update self sch coord now")
  from Cons.prems(2) c u have "run_updates (self1, sch1) calls = (s, sc)" by simp
  with Cons.IH[OF async_update_timers_ok[OF Cons.prems(1) u]] show ?case .
qed

text \<open>A new entity fits any well-formed timers that hold no wake-up of its job.\<close>

lemma new_entity_timers_ok:
  assumes "distinct (map fst (pending sch))"
    and "list_all (\<lambda>w. fst w < next_handle sch) (pending sch)"
    and "list_all (\<lambda>w. fst (snd w) \<noteq> job) (pending sch)"
  shows "timers_ok (EntsoeSensor_init dmn job d nm) sch"
proof -
  have j: "update_job (EntsoeSensor_init dmn job d nm) = job"
    by (simp add: EntsoeSensor_init_def split: option.splits)
  from assms(3) have "pending_of (EntsoeSensor_init dmn job d nm) sch = []"
    by (simp add: pending_of_def j filter_empty_conv list_all_iff)
  with assms(1,2) show ?thesis by (simp add: timers_ok_def)
qed

text \<open>
  Claim C2. Start from an entity and timers that fit together, such as a new entity and
  timers without a wake-up of its job, and make any sequence of update calls, with any
  coordinator states and clock readings. Then at most one wake-up of the entity is
  pending. In the next update, whatever the coordinator holds, none is pending once the
  cancellation is done, and when the call has registered the new wake-up (the time
  computation succeeded) exactly that one is pending.
\<close>

theorem at_most_one_pending_wakeup:
  assumes "timers_ok self sch" and "run_updates (self, sch) calls = (s, sc)"
  shows "length (pending_of s sc) \<le> 1 \<and>
         (\<forall>coord s0 sc0. cancel_pending (update_state s coord) sc = (s0, sc0) \<longrightarrow>
            pending_of s0 sc0 = []) \<and>
         (\<forall>coord now s1 sc1 err t.
            async_update s sc coord now = (s1, sc1, err) \<longrightarrow>
            next_update_time now = Inr t \<longrightarrow>
            pending_of s1 sc1 = [(next_handle sc, update_job s, t)])"
proof -
  have ok: "timers_ok s sc" using run_updates_timers_ok[OF assms] .
  have a: "length (pending_of s sc) \<le> 1" using pending_of_at_most_one[OF ok] .
  have b: "pending_of s0 sc0 = []"
    if "cancel_pending (update_state s coord) sc = (s0, sc0)" for coord s0 sc0
  proof -
    from ok have "timers_ok (update_state s coord) sc" by simp
    from cancel_pending_clears[OF this that] show ?thesis by simp
  qed
  have c: "pending_of s1 sc1 = [(next_handle sc, update_job s, t)]"
    if u: "async_update s sc coord now = (s1, sc1, err)" and t: "next_update_time now = Inr t"
    for coord now s1 sc1 err t
  proof -
    obtain s0 sc0 where c: "cancel_pending (update_state s coord) sc = (s0, sc0)"
      by (cases "cancel_pending (update_state s coord) sc")
    with u have sn: "schedule_next s0 sc0 now = (s1, sc1, err)"
      by (simp add: async_update_def)
    from ok have "timers_ok (update_state s coord) sc" by simp
    from cancel_pending_clears[OF this c] schedule_next_ok[OF _ _ _ _ sn] t
    show ?thesis by auto
  qed
  from a b c show ?thesis by blast
qed

text \<open>
  An instance: a new entity, empty timers and two update calls in direct succession, the
  first with a snapshot and the second without. One wake-up is pending afterwards, the
  second call's.
\<close>

theorem at_most_one_pending_wakeup_witness:
  "timers_ok (EntsoeSensor_init ''entsoe'' 7 (sensor_descriptions ''EUR'' ! 0) (Some ''home''))
     \<lparr>pending = [], next_handle = 0\<rparr> \<and>
   pending (snd (run_updates
       (EntsoeSensor_init ''entsoe'' 7 (sensor_descriptions ''EUR'' ! 0) (Some ''home''),
        \<lparr>pending = [], next_handle = 0\<rparr>)
       [(example_coordinator, example_now), (example_no_data, example_now)])) =
     [(1, 7, \<lparr>ordinal = 738886, hour = 13, minute = 0, second = 0, microsecond = 789012\<rparr>)] \<and>
   length (pending_of
      (fst (run_updates
         (EntsoeSensor_init ''entsoe'' 7 (sensor_descriptions ''EUR'' ! 0) (Some ''home''),
          \<lparr>pending = [], next_handle = 0\<rparr>)
         [(example_coordinator, example_now), (example_no_data, example_now)]))
      (snd (run_updates
         (EntsoeSensor_init ''entsoe'' 7 (sensor_descriptions ''EUR'' ! 0) (Some ''home''),
          \<lparr>pending = [], next_handle = 0\<rparr>)
         [(example_coordinator, example_now), (example_no_data, example_now)]))) \<le> 1"
proof -
  let ?s = "EntsoeSensor_init ''entsoe'' 7 (sensor_descriptions ''EUR'' ! 0) (Some ''home'')"
  let ?t = "\<lparr>pending = [], next_handle = 0\<rparr>"
  let ?r = "run_updates (?s, ?t) [(example_coordinator, example_now), (example_no_data, example_now)]"
  have ok: "timers_ok ?s ?t"
    by (simp add: timers_ok_def pending_of_def)
  have p: "pending (snd ?r) =
     [(1, 7, \<lparr>ordinal = 738886, hour = 13, minute = 0, second = 0, microsecond = 789012\<rparr>)]"
    by (simp add: async_update_def cancel_pending_def schedule_next_def
        next_update_time_example async_track_point_in_utc_time_def unsub_def
        EntsoeSensor_init_def split: prod.splits)
  have r: "?r = (fst ?r, snd ?r)" by simp
  from at_most_one_pending_wakeup[OF ok r] ok p show ?thesis by simp
qed

subsection \<open>Entity ids\<close>

text \<open>
  Two ids built as name, underscore, suffix can only collide under different names when
  one suffix ends in an underscore followed by the other. No two keys of the catalogue,
  and no two of its display names, stand in that relation.
\<close>

lemma catalogue_keys_names:
  "map key (sensor_descriptions currency) = catalogue_keys \<and>
   map name (sensor_descriptions currency) = catalogue_names"
  by (simp add: sensor_descriptions_def catalogue_keys_def catalogue_names_def)

lemma keys_suffix_free:
  "\<forall>k1 \<in> set catalogue_keys. \<forall>k2 \<in> set catalogue_keys. \<not> suffix (''_'' @ k2) k1"
  by (simp add: catalogue_keys_def suffix_to_prefix)

lemma names_suffix_free:
  "\<forall>k1 \<in> set catalogue_names. \<forall>k2 \<in> set catalogue_names. \<not> suffix (''_'' @ k2) k1"
  by (simp add: catalogue_names_def suffix_to_prefix)

lemma underscore_join_inj:
  assumes "n1 @ ''_'' @ k1 = n2 @ ''_'' @ k2"
    and "\<not> suffix (''_'' @ k1) k2" and "\<not> suffix (''_'' @ k2) k1"
  shows "n1 = n2"
proof -
  from assms(1) obtain us where
    "(n1 = n2 @ us \<and> us @ ''_'' @ k1 = ''_'' @ k2) \<or> (n1 @ us = n2 \<and> ''_'' @ k1 = us @ ''_'' @ k2)"
    by (auto simp add: append_eq_append_conv2)
  then show ?thesis
  proof
    assume a: "n1 = n2 @ us \<and> us @ ''_'' @ k1 = ''_'' @ k2"
    show ?thesis
    proof (cases us)
      case Nil
      with a show ?thesis by simp
    next
      case (Cons u us')
      with a have "k2 = us' @ ''_'' @ k1" by simp
      then have "suffix (''_'' @ k1) k2" by (simp add: suffix_def)
      with assms(2) show ?thesis by simp
    qed
  next
    assume a: "n1 @ us = n2 \<and> ''_'' @ k1 = us @ ''_'' @ k2"
    show ?thesis
    proof (cases us)
      case Nil
      with a show ?thesis by simp
    next
      case (Cons u us')
      with a have "k1 = us' @ ''_'' @ k2" by simp
      then have "suffix (''_'' @ k2) k1" by (simp add: suffix_def)
      with assms(3) show ?thesis by simp
    qed
  qed
qed

lemma ids_differ:
  assumes "n1 \<noteq> n2"
    and "\<not> suffix (''_'' @ k1) k2" and "\<not> suffix (''_'' @ k2) k1"
  shows "(if n1 \<noteq> [] then p @ n1 @ ''_'' @ k1 else p @ k1) \<noteq>
         (if n2 \<noteq> [] then p @ n2 @ ''_'' @ k2 else p @ k2)"
proof (cases "n1 = []"; cases "n2 = []")
  assume "n1 = []" "n2 = []"
  with assms(1) show ?thesis by simp
next
  assume e: "n1 = []" "n2 \<noteq> []"
  have "k1 \<noteq> n2 @ ''_'' @ k2"
  proof
    assume "k1 = n2 @ ''_'' @ k2"
    then have "suffix (''_'' @ k2) k1" by (simp add: suffix_def)
    with assms(3) show False by simp
  qed
  with e show ?thesis by simp
next
  assume e: "n1 \<noteq> []" "n2 = []"
  have "n1 @ ''_'' @ k1 \<noteq> k2"
  proof
    assume "n1 @ ''_'' @ k1 = k2"
    then have "suffix (''_'' @ k1) k2" by (auto simp add: suffix_def)
    with assms(2) show False by simp
  qed
  with e show ?thesis by simp
next
  assume e: "n1 \<noteq> []" "n2 \<noteq> []"
  from underscore_join_inj[OF _ assms(2,3)] assms(1) have "n1 @ ''_'' @ k1 \<noteq> n2 @ ''_'' @ k2"
    by blast
  with e show ?thesis by simp
qed

lemma init_ids:
  "entity_id (EntsoeSensor_init dmn job d nm) =
     (if configured_name nm \<noteq> [] then (dmn @ ''.'') @ configured_name nm @ ''_'' @ name d
      else (dmn @ ''.'') @ name d) \<and>
   attr_unique_id (EntsoeSensor_init dmn job d nm) =
     (if configured_name nm \<noteq> [] then ''entsoe.'' @ configured_name nm @ ''_'' @ key d
      else ''entsoe.'' @ key d)"
  by (simp add: EntsoeSensor_init_def configured_name_def split: option.splits)

text \<open>
  Claim C9. The entity id and the unique id depend only on the domain, the configured
  name and the display name, respectively the key, of the metric: two constructions that
  agree on these give the same ids. For two different configured names (no name, given
  as \<open>None\<close> or as the empty string, counts as one name), no metric of the catalogue
  under the one has the entity id or the unique id of any metric of the catalogue under
  the other.
\<close>

theorem ids_deterministic_and_disjoint:
  "(key d = key d' \<longrightarrow> name d = name d' \<longrightarrow>
      entity_id (EntsoeSensor_init dmn job d nm) = entity_id (EntsoeSensor_init dmn job' d' nm) \<and>
      attr_unique_id (EntsoeSensor_init dmn job d nm) =
        attr_unique_id (EntsoeSensor_init dmn job' d' nm)) \<and>
   (configured_name nm1 \<noteq> configured_name nm2 \<longrightarrow>
      d1 \<in> set (sensor_descriptions c1) \<longrightarrow> d2 \<in> set (sensor_descriptions c2) \<longrightarrow>
      entity_id (EntsoeSensor_init dmn j1 d1 nm1) \<noteq> entity_id (EntsoeSensor_init dmn j2 d2 nm2) \<and>
      attr_unique_id (EntsoeSensor_init dmn j1 d1 nm1) \<noteq>
        attr_unique_id (EntsoeSensor_init dmn j2 d2 nm2))"
proof (intro conjI impI)
  assume "key d = key d'" "name d = name d'"
  then show "entity_id (EntsoeSensor_init dmn job d nm) =
               entity_id (EntsoeSensor_init dmn job' d' nm)"
    and "attr_unique_id (EntsoeSensor_init dmn job d nm) =
           attr_unique_id (EntsoeSensor_init dmn job' d' nm)"
    by (simp_all add: EntsoeSensor_init_def split: option.splits)
next
  assume ne: "configured_name nm1 \<noteq> configured_name nm2"
    and d1: "d1 \<in> set (sensor_descriptions c1)"
    and d2: "d2 \<in> set (sensor_descriptions c2)"
  from d1 have "key d1 \<in> set (map key (sensor_descriptions c1))"
    and "name d1 \<in> set (map name (sensor_descriptions c1))" by simp_all
  then have k1: "key d1 \<in> set catalogue_keys" and m1: "name d1 \<in> set catalogue_names"
    by (simp_all only: catalogue_keys_names)
  from d2 have "key d2 \<in> set (map key (sensor_descriptions c2))"
    and "name d2 \<in> set (map name (sensor_descriptions c2))" by simp_all
  then have k2: "key d2 \<in> set catalogue_keys" and m2: "name d2 \<in> set catalogue_names"
    by (simp_all only: catalogue_keys_names)
  from keys_suffix_free k1 k2
  have ks: "\<not> suffix (''_'' @ key d1) (key d2)" "\<not> suffix (''_'' @ key d2) (key d1)"
    by blast+
  from names_suffix_free m1 m2
  have ms: "\<not> suffix (''_'' @ name d1) (name d2)" "\<not> suffix (''_'' @ name d2) (name d1)"
    by blast+
  show "entity_id (EntsoeSensor_init dmn j1 d1 nm1) \<noteq> entity_id (EntsoeSensor_init dmn j2 d2 nm2)"
    unfolding init_ids[THEN conjunct1] by (rule ids_differ[OF ne ms])
  show "attr_unique_id (EntsoeSensor_init dmn j1 d1 nm1) \<noteq>
          attr_unique_id (EntsoeSensor_init dmn j2 d2 nm2)"
    unfolding init_ids[THEN conjunct2] by (rule ids_differ[OF ne ks])
qed

text \<open>
  An instance: the current-price metric under the name \<open>home\<close> and the next-hour
  metric under the name \<open>home_current\<close> differ in both ids, and the current-price
  metric of two currencies has one entity id under the name \<open>home\<close>.
\<close>

theorem ids_deterministic_and_disjoint_witness:
  "configured_name (Some ''home'') \<noteq> configured_name (Some ''home_current'') \<and>
   sensor_descriptions ''EUR'' ! 0 \<in> set (sensor_descriptions ''EUR'') \<and>
   sensor_descriptions ''USD'' ! 1 \<in> set (sensor_descriptions ''USD'') \<and>
   attr_unique_id (EntsoeSensor_init ''entsoe'' 7 (sensor_descriptions ''EUR'' ! 0) (Some ''home''))
     = ''entsoe.home_current_price'' \<and>
   attr_unique_id (EntsoeSensor_init ''entsoe'' 7 (sensor_descriptions ''EUR'' ! 0) (Some ''home'')) \<noteq>
   attr_unique_id
     (EntsoeSensor_init ''entsoe'' 8 (sensor_descriptions ''USD'' ! 1) (Some ''home_current'')) \<and>
   entity_id (EntsoeSensor_init ''entsoe'' 7 (sensor_descriptions ''EUR'' ! 0) (Some ''home'')) \<noteq>
   entity_id
     (EntsoeSensor_init ''entsoe'' 8 (sensor_descriptions ''USD'' ! 1) (Some ''home_current'')) \<and>
   key (sensor_descriptions ''EUR'' ! 0) = key (sensor_descriptions ''USD'' ! 0) \<and>
   name (sensor_descriptions ''EUR'' ! 0) = name (sensor_descriptions ''USD'' ! 0) \<and>
   entity_id (EntsoeSensor_init ''entsoe'' 7 (sensor_descriptions ''EUR'' ! 0) (Some ''home'')) =
   entity_id (EntsoeSensor_init ''entsoe'' 8 (sensor_descriptions ''USD'' ! 0) (Some ''home''))"
proof -
  have ne: "configured_name (Some ''home'') \<noteq> configured_name (Some ''home_current'')"
    by (simp add: configured_name_def)
  have m: "sensor_descriptions ''EUR'' ! 0 \<in> set (sensor_descriptions ''EUR'')"
      "sensor_descriptions ''USD'' ! 1 \<in> set (sensor_descriptions ''USD'')"
    by (simp_all add: sensor_descriptions_def)
  have k: "key (sensor_descriptions ''EUR'' ! 0) = key (sensor_descriptions ''USD'' ! 0)"
      "name (sensor_descriptions ''EUR'' ! 0) = name (sensor_descriptions ''USD'' ! 0)"
    by (simp_all add: sensor_descriptions_def)
  have u: "attr_unique_id
             (EntsoeSensor_init ''entsoe'' 7 (sensor_descriptions ''EUR'' ! 0) (Some ''home'')) =
           ''entsoe.home_current_price''"
    by (simp add: EntsoeSensor_init_def sensor_descriptions_def)
  note t = ids_deterministic_and_disjoint[of "sensor_descriptions ''EUR'' ! 0"
      "sensor_descriptions ''USD'' ! 0" "''entsoe''" 7 "Some ''home''" 8
      "Some ''home''" "Some ''home_current''" "sensor_descriptions ''EUR'' ! 0" "''EUR''"
      "sensor_descriptions ''USD'' ! 1" "''USD''" 7 8]
  from t ne m
  have a: "attr_unique_id
             (EntsoeSensor_init ''entsoe'' 7 (sensor_descriptions ''EUR'' ! 0) (Some ''home'')) \<noteq>
           attr_unique_id
             (EntsoeSensor_init ''entsoe'' 8 (sensor_descriptions ''USD'' ! 1)
                (Some ''home_current''))"
    and b: "entity_id
             (EntsoeSensor_init ''entsoe'' 7 (sensor_descriptions ''EUR'' ! 0) (Some ''home'')) \<noteq>
           entity_id
             (EntsoeSensor_init ''entsoe'' 8 (sensor_descriptions ''USD'' ! 1)
                (Some ''home_current''))"
    by blast+
  from t k
  have c: "entity_id
             (EntsoeSensor_init ''entsoe'' 7 (sensor_descriptions ''EUR'' ! 0) (Some ''home'')) =
           entity_id
             (EntsoeSensor_init ''entsoe'' 8 (sensor_descriptions ''USD'' ! 0) (Some ''home''))"
    by blast
  from ne m k u a b c show ?thesis by blast
qed

end
